theory Spec2Isabelle
  imports Main
begin

section \<open>The canary server: data model\<close>

text \<open>
  Embedding of \<^verbatim>\<open>cmd/server/handlers.go\<close>.

  An instant (\<^verbatim>\<open>time.Time\<close>) is an integer count of clock ticks; the handlers only
  compare instants with \<^verbatim>\<open>After\<close>, which is the strict order.
\<close>

type_synonym time = int

definition After :: "time \<Rightarrow> time \<Rightarrow> bool" where
  "After t u = (u < t)"

text \<open>
  \<^verbatim>\<open>fugl.Canary\<close>: the handlers read the fields \<^verbatim>\<open>Version\<close>, \<^verbatim>\<open>Deadline\<close> (through
  \<^verbatim>\<open>Deadline.Time()\<close>) and \<^verbatim>\<open>Previous\<close>. The type of the version tag is left open
  (\<open>'v\<close>): it is only compared for equality with \<^verbatim>\<open>fugl.CanaryVersion\<close>.
\<close>

record 'v Canary =
  Version :: 'v
  Deadline :: time
  Previous :: string

text \<open>
  \<^verbatim>\<open>ServerState\<close>. A \<^verbatim>\<open>*fugl.Canary\<close> is an option: \<open>None\<close> is the nil pointer.
  The key (\<^verbatim>\<open>*openpgp.Entity\<close>) is only handed to \<^verbatim>\<open>fugl.OpenProof\<close>, so its type is
  left open (\<open>'k\<close>). The handlers are modelled one call at a time, so the lock
  \<^verbatim>\<open>canaryLock\<close> has no field here.
\<close>

record ('v, 'k) ServerState =
  storeDir :: string
  latestCanary :: "'v Canary option"
  latestProof :: string
  canaryKey :: 'k
  canaryKeyArmor :: string

text \<open>
  The package \<^verbatim>\<open>fugl\<close> that the handlers call is a parameter of the model:
  \<^item> \<^verbatim>\<open>fugl.CanaryVersion\<close>, the supported version tag;
  \<^item> \<^verbatim>\<open>fugl.OpenProof(key, proof)\<close>, returning a canary pointer and an error
    (\<open>None\<close> is \<^verbatim>\<open>nil\<close> in both places);
  \<^item> \<^verbatim>\<open>fugl.HashString\<close>;
  \<^item> \<^verbatim>\<open>fugl.SaveToDirectory(proof, dir, time)\<close>, which acts on the file system
    (a value of type \<open>'d\<close>) and returns an error, \<open>None\<close> for \<^verbatim>\<open>nil\<close>.
\<close>

record ('v, 'k, 'd) fugl =
  CanaryVersion :: 'v
  OpenProof :: "'k \<Rightarrow> string \<Rightarrow> 'v Canary option \<times> string option"
  HashString :: "string \<Rightarrow> string"
  SaveToDirectory :: "string \<Rightarrow> string \<Rightarrow> time \<Rightarrow> 'd \<Rightarrow> string option \<times> 'd"

section \<open>The response writer\<close>

text \<open>
  A handler's use of its \<^verbatim>\<open>http.ResponseWriter\<close> is the list of the calls it makes,
  in order. Setting the \<^verbatim>\<open>Content-Type\<close> header is the call \<open>SetContentType\<close>.
\<close>

datatype rw_call = WriteHeader nat | Write string | SetContentType string

definition StatusNoContent :: nat where "StatusNoContent = 204"
definition StatusBadRequest :: nat where "StatusBadRequest = 400"
definition StatusInternalServerError :: nat where "StatusInternalServerError = 500"

definition SendRequestError :: "string \<Rightarrow> rw_call list" where
  "SendRequestError msg = [WriteHeader StatusBadRequest, Write msg]"

section \<open>The handlers\<close>

text \<open>\<^verbatim>\<open>LatestHandler.ServeHTTP\<close>: serves the stored proof, or 204 when there is none.\<close>

definition LatestHandler_ServeHTTP :: "('v, 'k) ServerState \<Rightarrow> rw_call list" where
  "LatestHandler_ServeHTTP st =
     (if latestProof st = [] then [WriteHeader StatusNoContent]
      else [SetContentType ''text/plain'', Write (latestProof st)])"

text \<open>
  What one call of \<^verbatim>\<open>SubmitHandler.ServeHTTP\<close> leaves behind: the calls made on the
  response writer, whether the call ended in a nil-pointer panic, the server state
  and the file system.
\<close>

record ('v, 'k, 'd) outcome =
  calls :: "rw_call list"
  panicked :: bool
  state :: "('v, 'k) ServerState"
  disk :: 'd

text \<open>
  Lines 98 to 100 of \<^verbatim>\<open>SubmitHandler.ServeHTTP\<close>: when \<^verbatim>\<open>OpenProof\<close> returned an error
  it is sent to the client. There is no \<^verbatim>\<open>return\<close> in that branch.
\<close>

definition open_error :: "string option \<Rightarrow> rw_call list" where
  "open_error err = (case err of None \<Rightarrow> [] | Some e \<Rightarrow> SendRequestError e)"

text \<open>
  \<^verbatim>\<open>SubmitHandler.ServeHTTP\<close>, statement by statement. \<open>now\<close> is the value of
  \<^verbatim>\<open>time.Now()\<close>, \<open>proof\<close> the posted form value and \<open>d\<close> the file system.
  Reading \<^verbatim>\<open>canary.Version\<close> through a nil pointer panics; the panic happens before
  the lock is taken and before anything is stored.
\<close>

definition SubmitHandler_ServeHTTP ::
  "('v, 'k, 'd) fugl \<Rightarrow> time \<Rightarrow> string \<Rightarrow> ('v, 'k) ServerState \<Rightarrow> 'd \<Rightarrow> ('v, 'k, 'd) outcome"
where
  "SubmitHandler_ServeHTTP lib now proof st d =
     (let (canary, err) = OpenProof lib (canaryKey st) proof;
          w = open_error err
      in (case canary of
        None \<Rightarrow> \<lparr>calls = w, panicked = True, state = st, disk = d\<rparr>
      | Some c \<Rightarrow>
         (if Version c \<noteq> CanaryVersion lib then
            \<lparr>calls = w @ SendRequestError ''Unsupported canary version'',
             panicked = False, state = st, disk = d\<rparr>
          else if After now (Deadline c) then
            \<lparr>calls = w @ SendRequestError ''Canary must have a deadline in the future'',
             panicked = False, state = st, disk = d\<rparr>
          else if (case latestCanary st of None \<Rightarrow> False
                   | Some l \<Rightarrow> \<not> After (Deadline c) (Deadline l)) then
            \<lparr>calls = w @ SendRequestError ''New canary deadline must be after previous deadline'',
             panicked = False, state = st, disk = d\<rparr>
          else if latestProof st \<noteq> [] \<and> HashString lib proof \<noteq> Previous c then
            \<lparr>calls = w @ SendRequestError ''Canary must reference preceeding canary hash'',
             panicked = False, state = st, disk = d\<rparr>
          else
            (case SaveToDirectory lib proof (storeDir st) (Deadline c) d of
               (Some e, d') \<Rightarrow>
                 \<lparr>calls = w @ [WriteHeader StatusInternalServerError],
                  panicked = False, state = st, disk = d'\<rparr>
             | (None, d') \<Rightarrow>
                 \<lparr>calls = w @ [WriteHeader StatusNoContent],
                  panicked = False,
                  state = st\<lparr>latestProof := proof, latestCanary := Some c\<rparr>,
                  disk = d'\<rparr>))))"

text \<open>
  The call reached the end of the handler (``Succesfully added a new canary''): its
  last call on the response writer is \<^verbatim>\<open>WriteHeader(http.StatusNoContent)\<close>.
\<close>

definition added :: "('v, 'k, 'd) outcome \<Rightarrow> bool" where
  "added out = (\<not> panicked out \<and> calls out \<noteq> [] \<and> last (calls out) = WriteHeader StatusNoContent)"

text \<open>
  The four tests the handler makes on a candidate, each as the condition under which
  the handler goes on (lines 103, 110, 120 to 121, 128 to 130).
\<close>

definition version_ok :: "('v, 'k, 'd) fugl \<Rightarrow> 'v Canary \<Rightarrow> bool" where
  "version_ok lib c = (Version c = CanaryVersion lib)"

definition deadline_ok :: "time \<Rightarrow> 'v Canary \<Rightarrow> bool" where
  "deadline_ok now c = (\<not> After now (Deadline c))"

definition increasing_ok :: "('v, 'k) ServerState \<Rightarrow> 'v Canary \<Rightarrow> bool" where
  "increasing_ok st c =
     (case latestCanary st of None \<Rightarrow> True | Some l \<Rightarrow> After (Deadline c) (Deadline l))"

definition linkage_ok :: "('v, 'k, 'd) fugl \<Rightarrow> string \<Rightarrow> ('v, 'k) ServerState \<Rightarrow> 'v Canary \<Rightarrow> bool" where
  "linkage_ok lib proof st c = (latestProof st = [] \<or> HashString lib proof = Previous c)"

definition passes :: "('v, 'k, 'd) fugl \<Rightarrow> time \<Rightarrow> string \<Rightarrow> ('v, 'k) ServerState \<Rightarrow> 'v Canary \<Rightarrow> bool" where
  "passes lib now proof st c =
     (version_ok lib c \<and> deadline_ok now c \<and> increasing_ok st c \<and> linkage_ok lib proof st c)"

text \<open>
  The validator as the specification words it: checks in a fixed order, each with the
  reason it reports, and the first failing check decides. The conditions are the
  handler's own, the reasons are the strings it sends.
\<close>

definition checks_in_order ::
  "('v, 'k, 'd) fugl \<Rightarrow> time \<Rightarrow> string \<Rightarrow> ('v, 'k) ServerState \<Rightarrow> 'v Canary \<Rightarrow> (bool \<times> string) list"
where
  "checks_in_order lib now proof st c =
     [(version_ok lib c, ''Unsupported canary version''),
      (deadline_ok now c, ''Canary must have a deadline in the future''),
      (increasing_ok st c, ''New canary deadline must be after previous deadline''),
      (linkage_ok lib proof st c, ''Canary must reference preceeding canary hash'')]"

fun first_failing :: "(bool \<times> string) list \<Rightarrow> string option" where
  "first_failing [] = None"
| "first_failing ((ok, reason) # cs) = (if ok then first_failing cs else Some reason)"

section \<open>Runs of the server\<close>

text \<open>
  A request to the submit handler is the instant at which it is served and the posted
  proof. In a run the requests are served one after the other, each on the state and
  the file system that the one before left behind; the other handlers only read.
\<close>

type_synonym request = "time \<times> string"

fun serve ::
  "('v, 'k, 'd) fugl \<Rightarrow> request list \<Rightarrow> ('v, 'k) ServerState \<Rightarrow> 'd \<Rightarrow> ('v, 'k) ServerState \<times> 'd"
where
  "serve lib [] st d = (st, d)"
| "serve lib ((now, proof) # rs) st d =
     (let out = SubmitHandler_ServeHTTP lib now proof st d
      in serve lib rs (state out) (disk out))"

text \<open>The deadlines of the canaries added during a run, in the order they were added.\<close>

fun accepted_deadlines ::
  "('v, 'k, 'd) fugl \<Rightarrow> request list \<Rightarrow> ('v, 'k) ServerState \<Rightarrow> 'd \<Rightarrow> time list"
where
  "accepted_deadlines lib [] st d = []"
| "accepted_deadlines lib ((now, proof) # rs) st d =
     (let out = SubmitHandler_ServeHTTP lib now proof st d
      in (if added out then (case latestCanary (state out) of None \<Rightarrow> [] | Some c \<Rightarrow> [Deadline c])
          else [])
         @ accepted_deadlines lib rs (state out) (disk out))"


section \<open>A small instance\<close>

text \<open>
  An instance of the parameters on which the definitions can be evaluated. Documents
  are opened by table lookup, anything else fails to verify; the hash prefixes a mark
  (it is injective); the file system is a count of free slots, and saving fails when
  none is left.
\<close>

definition example_canaries :: "(string \<times> string Canary) list" where
  "example_canaries =
     [(''doc1'', \<lparr>Version = ''v1'', Deadline = 30, Previous = []\<rparr>),
      (''doc2'', \<lparr>Version = ''v1'', Deadline = 60, Previous = ''#doc2''\<rparr>),
      (''doc3'', \<lparr>Version = ''v1'', Deadline = 60, Previous = ''#doc1''\<rparr>),
      (''same'', \<lparr>Version = ''v1'', Deadline = 30, Previous = ''#same''\<rparr>),
      (''v0'', \<lparr>Version = ''v0'', Deadline = 0, Previous = []\<rparr>)]"

definition example_lib :: "(string, unit, nat) fugl" where
  "example_lib =
     \<lparr>CanaryVersion = ''v1'',
      OpenProof = (\<lambda>k p. case map_of example_canaries p of
                            None \<Rightarrow> (None, Some ''no valid signature'')
                          | Some c \<Rightarrow> (Some c, None)),
      HashString = (\<lambda>s. CHR ''#'' # s),
      SaveToDirectory = (\<lambda>p dir t free.
                           if free = 0 then (Some ''no space left'', free) else (None, free - 1))\<rparr>"

definition example_empty :: "(string, unit) ServerState" where
  "example_empty =
     \<lparr>storeDir = ''store'', latestCanary = None, latestProof = [],
      canaryKey = (), canaryKeyArmor = ''key''\<rparr>"

definition example_tip1 :: "(string, unit) ServerState" where
  "example_tip1 =
     example_empty\<lparr>latestProof := ''doc1'',
       latestCanary := Some \<lparr>Version = ''v1'', Deadline = 30, Previous = []\<rparr>\<rparr>"


section \<open>Properties\<close>

lemma Submit_opened:
  "OpenProof lib (canaryKey st) proof = (Some c, err) \<Longrightarrow>
   SubmitHandler_ServeHTTP lib now proof st d =
     (if \<not> version_ok lib c then
        \<lparr>calls = open_error err @ SendRequestError ''Unsupported canary version'',
         panicked = False, state = st, disk = d\<rparr>
      else if \<not> deadline_ok now c then
        \<lparr>calls = open_error err @ SendRequestError ''Canary must have a deadline in the future'',
         panicked = False, state = st, disk = d\<rparr>
      else if \<not> increasing_ok st c then
        \<lparr>calls = open_error err @ SendRequestError ''New canary deadline must be after previous deadline'',
         panicked = False, state = st, disk = d\<rparr>
      else if \<not> linkage_ok lib proof st c then
        \<lparr>calls = open_error err @ SendRequestError ''Canary must reference preceeding canary hash'',
         panicked = False, state = st, disk = d\<rparr>
      else
        (case SaveToDirectory lib proof (storeDir st) (Deadline c) d of
           (Some e, d') \<Rightarrow>
             \<lparr>calls = open_error err @ [WriteHeader StatusInternalServerError],
              panicked = False, state = st, disk = d'\<rparr>
         | (None, d') \<Rightarrow>
             \<lparr>calls = open_error err @ [WriteHeader StatusNoContent],
              panicked = False,
              state = st\<lparr>latestProof := proof, latestCanary := Some c\<rparr>,
              disk = d'\<rparr>))"
  by (simp add: SubmitHandler_ServeHTTP_def Let_def version_ok_def deadline_ok_def
      increasing_ok_def linkage_ok_def split: option.splits)

lemma Submit_nil:
  "OpenProof lib (canaryKey st) proof = (None, err) \<Longrightarrow>
   SubmitHandler_ServeHTTP lib now proof st d =
     \<lparr>calls = open_error err, panicked = True, state = st, disk = d\<rparr>"
  by (simp add: SubmitHandler_ServeHTTP_def)

lemma not_added_SendRequestError [simp]:
  "\<not> added \<lparr>calls = w @ SendRequestError msg, panicked = b, state = st, disk = d\<rparr>"
  by (simp add: added_def SendRequestError_def)

lemma not_added_500 [simp]:
  "\<not> added \<lparr>calls = w @ [WriteHeader StatusInternalServerError], panicked = b, state = st, disk = d\<rparr>"
  by (simp add: added_def StatusInternalServerError_def StatusNoContent_def)

lemma added_204 [simp]:
  "added \<lparr>calls = w @ [WriteHeader StatusNoContent], panicked = False, state = st, disk = d\<rparr>"
  by (simp add: added_def)

lemma not_added_panicked [simp]:
  "\<not> added \<lparr>calls = w, panicked = True, state = st, disk = d\<rparr>"
  by (simp add: added_def)

text \<open>
  Every call either adds the candidate and makes it the tip, or leaves the state as
  it was.
\<close>

lemma Submit_cases:
  obtains
    (unchanged) "\<not> added (SubmitHandler_ServeHTTP lib now proof st d)"
      "state (SubmitHandler_ServeHTTP lib now proof st d) = st"
  | (added) c err d' where
      "OpenProof lib (canaryKey st) proof = (Some c, err)"
      "passes lib now proof st c"
      "SaveToDirectory lib proof (storeDir st) (Deadline c) d = (None, d')"
      "added (SubmitHandler_ServeHTTP lib now proof st d)"
      "SubmitHandler_ServeHTTP lib now proof st d =
         \<lparr>calls = open_error err @ [WriteHeader StatusNoContent], panicked = False,
          state = st\<lparr>latestProof := proof, latestCanary := Some c\<rparr>, disk = d'\<rparr>"
proof (cases "OpenProof lib (canaryKey st) proof")
  case (Pair canary err)
  show ?thesis
  proof (cases canary)
    case None
    with Pair show ?thesis
      by (intro unchanged) (simp_all add: Submit_nil)
  next
    case (Some c)
    note opened = Pair [unfolded Some]
    show ?thesis
    proof (cases "passes lib now proof st c")
      case False
      then show ?thesis
        by (intro unchanged) (auto simp: Submit_opened [OF opened] passes_def)
    next
      case True
      obtain r d' where save: "SaveToDirectory lib proof (storeDir st) (Deadline c) d = (r, d')"
        by (cases "SaveToDirectory lib proof (storeDir st) (Deadline c) d")
      show ?thesis
      proof (cases r)
        case None
        with True save show ?thesis
          by (intro added [OF opened True]) (simp_all add: Submit_opened [OF opened] passes_def)
      next
        case (Some e)
        with True save show ?thesis
          by (intro unchanged) (simp_all add: Submit_opened [OF opened] passes_def)
      qed
    qed
  qed
qed

lemma added_iff:
  assumes "OpenProof lib (canaryKey st) proof = (Some c, err)"
  shows "added (SubmitHandler_ServeHTTP lib now proof st d) =
           (passes lib now proof st c \<and>
            fst (SaveToDirectory lib proof (storeDir st) (Deadline c) d) = None)"
  by (auto simp: Submit_opened [OF assms] passes_def split: prod.splits option.splits)

lemma first_failing_None:
  "(first_failing (checks_in_order lib now proof st c) = None) = passes lib now proof st c"
  by (simp add: checks_in_order_def passes_def)

subsection \<open>An empty chain\<close>

text \<open>
  C5: on an empty chain (\<^verbatim>\<open>latestCanary\<close> nil and \<^verbatim>\<open>latestProof\<close> empty) every candidate
  with the supported version and a deadline after \<open>now\<close> is added when the store
  succeeds, whatever its \<^verbatim>\<open>Previous\<close> field holds: the handler answers 204 and the
  state holds the submitted proof and its canary. Nothing is assumed about
  \<open>Previous c\<close>, and neither the deadline of a predecessor nor a hash is consulted.
\<close>

theorem C5_empty_chain_accepts:
  assumes "latestCanary st = None" and "latestProof st = []"
    and "OpenProof lib (canaryKey st) proof = (Some c, err)"
    and "Version c = CanaryVersion lib"
    and "After (Deadline c) now"
    and "SaveToDirectory lib proof (storeDir st) (Deadline c) d = (None, d')"
  shows "SubmitHandler_ServeHTTP lib now proof st d =
           \<lparr>calls = open_error err @ [WriteHeader StatusNoContent], panicked = False,
            state = st\<lparr>latestProof := proof, latestCanary := Some c\<rparr>, disk = d'\<rparr>
         \<and> added (SubmitHandler_ServeHTTP lib now proof st d)"
proof -
  have "passes lib now proof st c"
    using assms by (simp add: passes_def version_ok_def deadline_ok_def increasing_ok_def
        linkage_ok_def After_def)
  then show ?thesis
    using assms(3,6) by (simp add: Submit_opened passes_def)
qed

theorem C5_empty_chain_accepts_witness:
  "latestCanary example_empty = None \<and> latestProof example_empty = [] \<and>
   OpenProof example_lib (canaryKey example_empty) ''doc3''
     = (Some \<lparr>Version = ''v1'', Deadline = 60, Previous = ''#doc1''\<rparr>, None) \<and>
   After 60 1 \<and>
   SaveToDirectory example_lib ''doc3'' (storeDir example_empty) 60 5 = (None, 4) \<and>
   SubmitHandler_ServeHTTP example_lib 1 ''doc3'' example_empty 5 =
     \<lparr>calls = [WriteHeader StatusNoContent], panicked = False,
      state = example_empty\<lparr>latestProof := ''doc3'',
                latestCanary := Some \<lparr>Version = ''v1'', Deadline = 60, Previous = ''#doc1''\<rparr>\<rparr>,
      disk = 4\<rparr>"
  using C5_empty_chain_accepts [of example_empty example_lib "''doc3''"
      "\<lparr>Version = ''v1'', Deadline = 60, Previous = ''#doc1''\<rparr>" None 1 5 4]
  by (simp add: example_empty_def example_lib_def example_canaries_def After_def open_error_def)

subsection \<open>Persisting before committing\<close>

text \<open>
  C3: for a candidate that passes the four checks, the state is written only after
  \<^verbatim>\<open>SaveToDirectory\<close> returned. If the store fails the handler answers 500 and the
  state is the one before the call, so that the same candidate, submitted again
  while its deadline has not passed, is added as soon as the store succeeds. If the
  store succeeds the handler answers 204 and \<^verbatim>\<open>latestProof\<close> and \<^verbatim>\<open>latestCanary\<close> are
  exactly the submitted proof and its canary. And no call at all changes the state
  unless its \<^verbatim>\<open>SaveToDirectory\<close> call reported success.
\<close>

theorem C3_commit_after_persist:
  assumes "OpenProof lib (canaryKey st) proof = (Some c, err)"
    and "passes lib now proof st c"
  shows
    "(\<forall>e d'. SaveToDirectory lib proof (storeDir st) (Deadline c) d = (Some e, d') \<longrightarrow>
        SubmitHandler_ServeHTTP lib now proof st d =
          \<lparr>calls = open_error err @ [WriteHeader StatusInternalServerError], panicked = False,
           state = st, disk = d'\<rparr>
        \<and> (\<forall>now2 d2 d3.
              \<not> After now2 (Deadline c) \<and>
              SaveToDirectory lib proof (storeDir st) (Deadline c) d2 = (None, d3) \<longrightarrow>
              added (SubmitHandler_ServeHTTP lib now2 proof
                       (state (SubmitHandler_ServeHTTP lib now proof st d)) d2)))
     \<and> (\<forall>d'. SaveToDirectory lib proof (storeDir st) (Deadline c) d = (None, d') \<longrightarrow>
        SubmitHandler_ServeHTTP lib now proof st d =
          \<lparr>calls = open_error err @ [WriteHeader StatusNoContent], panicked = False,
           state = st\<lparr>latestProof := proof, latestCanary := Some c\<rparr>, disk = d'\<rparr>
        \<and> added (SubmitHandler_ServeHTTP lib now proof st d))
     \<and> (\<forall>now0 proof0 d0.
          state (SubmitHandler_ServeHTTP lib now0 proof0 st d0) \<noteq> st \<longrightarrow>
          (\<exists>c0 err0 d1. OpenProof lib (canaryKey st) proof0 = (Some c0, err0) \<and>
             SaveToDirectory lib proof0 (storeDir st) (Deadline c0) d0 = (None, d1)))"
proof (intro conjI allI impI)
  fix e d'
  assume fails: "SaveToDirectory lib proof (storeDir st) (Deadline c) d = (Some e, d')"
  show failed: "SubmitHandler_ServeHTTP lib now proof st d =
          \<lparr>calls = open_error err @ [WriteHeader StatusInternalServerError], panicked = False,
           state = st, disk = d'\<rparr>"
    using assms(2) fails by (simp add: Submit_opened [OF assms(1)] passes_def)
  fix now2 d2 d3
  assume retry: "\<not> After now2 (Deadline c) \<and>
              SaveToDirectory lib proof (storeDir st) (Deadline c) d2 = (None, d3)"
  have "passes lib now2 proof st c"
    using assms(2) retry by (simp add: passes_def deadline_ok_def)
  then have "added (SubmitHandler_ServeHTTP lib now2 proof st d2)"
    using retry by (simp add: added_iff [OF assms(1)])
  then show "added (SubmitHandler_ServeHTTP lib now2 proof
                       (state (SubmitHandler_ServeHTTP lib now proof st d)) d2)"
    by (simp add: failed)
next
  fix d'
  assume "SaveToDirectory lib proof (storeDir st) (Deadline c) d = (None, d')"
  then show "SubmitHandler_ServeHTTP lib now proof st d =
          \<lparr>calls = open_error err @ [WriteHeader StatusNoContent], panicked = False,
           state = st\<lparr>latestProof := proof, latestCanary := Some c\<rparr>, disk = d'\<rparr>"
    using assms(2) by (simp add: Submit_opened [OF assms(1)] passes_def)
  then show "added (SubmitHandler_ServeHTTP lib now proof st d)"
    by simp
next
  fix now0 proof0 d0
  assume changed: "state (SubmitHandler_ServeHTTP lib now0 proof0 st d0) \<noteq> st"
  show "\<exists>c0 err0 d1. OpenProof lib (canaryKey st) proof0 = (Some c0, err0) \<and>
             SaveToDirectory lib proof0 (storeDir st) (Deadline c0) d0 = (None, d1)"
  proof (cases rule: Submit_cases [of lib now0 proof0 st d0])
    case unchanged
    with changed show ?thesis by simp
  next
    case (added c0 err0 d1)
    then show ?thesis by blast
  qed
qed

theorem C3_commit_after_persist_witness:
  "OpenProof example_lib (canaryKey example_tip1) ''doc2''
     = (Some \<lparr>Version = ''v1'', Deadline = 60, Previous = ''#doc2''\<rparr>, None) \<and>
   passes example_lib 1 ''doc2'' example_tip1 \<lparr>Version = ''v1'', Deadline = 60, Previous = ''#doc2''\<rparr> \<and>
   SaveToDirectory example_lib ''doc2'' (storeDir example_tip1) 60 0 = (Some ''no space left'', 0) \<and>
   SubmitHandler_ServeHTTP example_lib 1 ''doc2'' example_tip1 0 =
     \<lparr>calls = [WriteHeader StatusInternalServerError], panicked = False,
      state = example_tip1, disk = 0\<rparr> \<and>
   \<not> After 2 60 \<and>
   SaveToDirectory example_lib ''doc2'' (storeDir example_tip1) 60 3 = (None, 2) \<and>
   added (SubmitHandler_ServeHTTP example_lib 2 ''doc2''
            (state (SubmitHandler_ServeHTTP example_lib 1 ''doc2'' example_tip1 0)) 3) \<and>
   SubmitHandler_ServeHTTP example_lib 1 ''doc2'' example_tip1 3 =
     \<lparr>calls = [WriteHeader StatusNoContent], panicked = False,
      state = example_tip1\<lparr>latestProof := ''doc2'',
                latestCanary := Some \<lparr>Version = ''v1'', Deadline = 60, Previous = ''#doc2''\<rparr>\<rparr>,
      disk = 2\<rparr> \<and>
   state (SubmitHandler_ServeHTTP example_lib 1 ''doc2'' example_tip1 3) \<noteq> example_tip1"
proof -
  let ?c = "\<lparr>Version = ''v1'', Deadline = 60, Previous = ''#doc2''\<rparr> :: string Canary"
  have opened: "OpenProof example_lib (canaryKey example_tip1) ''doc2'' = (Some ?c, None)"
    by (simp add: example_lib_def example_canaries_def)
  have ok: "passes example_lib 1 ''doc2'' example_tip1 ?c"
    by (simp add: passes_def version_ok_def deadline_ok_def increasing_ok_def linkage_ok_def
        After_def example_lib_def example_tip1_def example_empty_def)
  have full: "SaveToDirectory example_lib ''doc2'' (storeDir example_tip1) (Deadline ?c) 0
                = (Some ''no space left'', 0)"
    by (simp add: example_lib_def)
  have room: "SaveToDirectory example_lib ''doc2'' (storeDir example_tip1) (Deadline ?c) 3
                = (None, 2)"
    by (simp add: example_lib_def)
  have late: "\<not> After 2 (Deadline ?c)"
    by (simp add: After_def)
  have changed: "example_tip1\<lparr>latestProof := ''doc2'', latestCanary := Some ?c\<rparr> \<noteq> example_tip1"
    by (simp add: example_tip1_def example_empty_def)
  note inst = C3_commit_after_persist [OF opened ok]
  from inst [of 0] full
  have "SubmitHandler_ServeHTTP example_lib 1 ''doc2'' example_tip1 0 =
     \<lparr>calls = open_error None @ [WriteHeader StatusInternalServerError], panicked = False,
      state = example_tip1, disk = 0\<rparr>"
    by blast
  then have a: "SubmitHandler_ServeHTTP example_lib 1 ''doc2'' example_tip1 0 =
     \<lparr>calls = [WriteHeader StatusInternalServerError], panicked = False,
      state = example_tip1, disk = 0\<rparr>"
    by (simp add: open_error_def)
  from inst [of 0] full late room
  have b: "added (SubmitHandler_ServeHTTP example_lib 2 ''doc2''
            (state (SubmitHandler_ServeHTTP example_lib 1 ''doc2'' example_tip1 0)) 3)"
    by blast
  from inst [of 3] room
  have "SubmitHandler_ServeHTTP example_lib 1 ''doc2'' example_tip1 3 =
     \<lparr>calls = open_error None @ [WriteHeader StatusNoContent], panicked = False,
      state = example_tip1\<lparr>latestProof := ''doc2'', latestCanary := Some ?c\<rparr>, disk = 2\<rparr>"
    by blast
  then have c: "SubmitHandler_ServeHTTP example_lib 1 ''doc2'' example_tip1 3 =
     \<lparr>calls = [WriteHeader StatusNoContent], panicked = False,
      state = example_tip1\<lparr>latestProof := ''doc2'', latestCanary := Some ?c\<rparr>, disk = 2\<rparr>"
    by (simp add: open_error_def)
  show ?thesis
    using opened ok full room late a b c changed by simp
qed

subsection \<open>Rejections leave the state alone\<close>

text \<open>
  C4: a call that does not add the candidate leaves the state exactly as it was, so
  \<^verbatim>\<open>latestProof\<close> and \<^verbatim>\<open>latestCanary\<close> (and what the latest handler serves) are
  unchanged. That covers every rejection and the store failure: a candidate that
  fails the version check, the future-deadline check, the previous-deadline check or
  the hash check, or whose \<^verbatim>\<open>SaveToDirectory\<close> call returns an error, is not added;
  nor is anything added when \<^verbatim>\<open>OpenProof\<close> returns no canary.
\<close>

theorem C4_rejection_leaves_state:
  "(\<not> added (SubmitHandler_ServeHTTP lib now proof st d) \<longrightarrow>
      state (SubmitHandler_ServeHTTP lib now proof st d) = st \<and>
      latestProof (state (SubmitHandler_ServeHTTP lib now proof st d)) = latestProof st \<and>
      latestCanary (state (SubmitHandler_ServeHTTP lib now proof st d)) = latestCanary st \<and>
      LatestHandler_ServeHTTP (state (SubmitHandler_ServeHTTP lib now proof st d))
        = LatestHandler_ServeHTTP st)
   \<and> (\<forall>c err. OpenProof lib (canaryKey st) proof = (Some c, err) \<longrightarrow>
        (\<not> version_ok lib c \<or> \<not> deadline_ok now c \<or> \<not> increasing_ok st c \<or>
         \<not> linkage_ok lib proof st c \<or>
         fst (SaveToDirectory lib proof (storeDir st) (Deadline c) d) \<noteq> None) \<longrightarrow>
        \<not> added (SubmitHandler_ServeHTTP lib now proof st d))
   \<and> (fst (OpenProof lib (canaryKey st) proof) = None \<longrightarrow>
        \<not> added (SubmitHandler_ServeHTTP lib now proof st d))"
proof (intro conjI allI impI)
  assume "\<not> added (SubmitHandler_ServeHTTP lib now proof st d)"
  then show same: "state (SubmitHandler_ServeHTTP lib now proof st d) = st"
    by (cases rule: Submit_cases [of lib now "proof" st d]) simp_all
  then show "latestProof (state (SubmitHandler_ServeHTTP lib now proof st d)) = latestProof st"
    and "latestCanary (state (SubmitHandler_ServeHTTP lib now proof st d)) = latestCanary st"
    and "LatestHandler_ServeHTTP (state (SubmitHandler_ServeHTTP lib now proof st d))
        = LatestHandler_ServeHTTP st"
    by simp_all
next
  fix c err
  assume "OpenProof lib (canaryKey st) proof = (Some c, err)"
    and "\<not> version_ok lib c \<or> \<not> deadline_ok now c \<or> \<not> increasing_ok st c \<or>
         \<not> linkage_ok lib proof st c \<or>
         fst (SaveToDirectory lib proof (storeDir st) (Deadline c) d) \<noteq> None"
  then show "\<not> added (SubmitHandler_ServeHTTP lib now proof st d)"
    by (auto simp: added_iff passes_def)
next
  assume "fst (OpenProof lib (canaryKey st) proof) = None"
  then obtain err where "OpenProof lib (canaryKey st) proof = (None, err)"
    by (cases "OpenProof lib (canaryKey st) proof") simp
  then show "\<not> added (SubmitHandler_ServeHTTP lib now proof st d)"
    by (simp add: Submit_nil)
qed

theorem C4_rejection_leaves_state_witness:
  "OpenProof example_lib (canaryKey example_tip1) ''same''
     = (Some \<lparr>Version = ''v1'', Deadline = 30, Previous = ''#same''\<rparr>, None) \<and>
   \<not> increasing_ok example_tip1 \<lparr>Version = ''v1'', Deadline = 30, Previous = ''#same''\<rparr> \<and>
   \<not> added (SubmitHandler_ServeHTTP example_lib 1 ''same'' example_tip1 5) \<and>
   state (SubmitHandler_ServeHTTP example_lib 1 ''same'' example_tip1 5) = example_tip1 \<and>
   fst (OpenProof example_lib (canaryKey example_tip1) ''junk'') = None \<and>
   \<not> added (SubmitHandler_ServeHTTP example_lib 1 ''junk'' example_tip1 5) \<and>
   state (SubmitHandler_ServeHTTP example_lib 1 ''junk'' example_tip1 5) = example_tip1"
proof -
  let ?c = "\<lparr>Version = ''v1'', Deadline = 30, Previous = ''#same''\<rparr> :: string Canary"
  have opened: "OpenProof example_lib (canaryKey example_tip1) ''same'' = (Some ?c, None)"
    by (simp add: example_lib_def example_canaries_def)
  have stale: "\<not> increasing_ok example_tip1 ?c"
    by (simp add: increasing_ok_def After_def example_tip1_def)
  have junk: "fst (OpenProof example_lib (canaryKey example_tip1) ''junk'') = None"
    by (simp add: example_lib_def example_canaries_def)
  from C4_rejection_leaves_state [of example_lib 1 "''same''" example_tip1 5] opened stale
  have a: "\<not> added (SubmitHandler_ServeHTTP example_lib 1 ''same'' example_tip1 5)"
    and b: "state (SubmitHandler_ServeHTTP example_lib 1 ''same'' example_tip1 5) = example_tip1"
    by blast+
  from C4_rejection_leaves_state [of example_lib 1 "''junk''" example_tip1 5] junk
  have c: "\<not> added (SubmitHandler_ServeHTTP example_lib 1 ''junk'' example_tip1 5)"
    and d: "state (SubmitHandler_ServeHTTP example_lib 1 ''junk'' example_tip1 5) = example_tip1"
    by blast+
  show ?thesis
    using opened stale junk a b c d by simp
qed

subsection \<open>The order of the checks\<close>

text \<open>
  C7: for a candidate that \<^verbatim>\<open>OpenProof\<close> returned, the handler answers with the
  reason of the first failing check in the order version, future deadline, previous
  deadline, previous hash: the response is status 400 followed by the text of exactly
  that reason, and the handler returns with the state and the file system untouched.
  Spelled out per kind: a wrong version is answered ``Unsupported canary version''
  whatever else fails (so also when the deadline has passed); a passed deadline is
  answered ``Canary must have a deadline in the future'' when the version is right;
  and so on down the list. No reason is written when all four checks pass. The four
  reasons are fixed strings, and the four responses written for them are pairwise
  different.
\<close>

theorem C7_first_failing_check_wins:
  assumes "OpenProof lib (canaryKey st) proof = (Some c, err)"
  shows
    "(\<forall>reason. first_failing (checks_in_order lib now proof st c) = Some reason \<longrightarrow>
        SubmitHandler_ServeHTTP lib now proof st d =
          \<lparr>calls = open_error err @ [WriteHeader StatusBadRequest, Write reason],
           panicked = False, state = st, disk = d\<rparr>)
     \<and> (first_failing (checks_in_order lib now proof st c) = None \<longrightarrow>
        passes lib now proof st c \<and>
        (\<forall>reason. calls (SubmitHandler_ServeHTTP lib now proof st d)
                   \<noteq> open_error err @ [WriteHeader StatusBadRequest, Write reason]))
     \<and> (\<not> version_ok lib c \<longrightarrow>
        calls (SubmitHandler_ServeHTTP lib now proof st d)
          = open_error err @ [WriteHeader StatusBadRequest, Write ''Unsupported canary version''])
     \<and> (version_ok lib c \<and> \<not> deadline_ok now c \<longrightarrow>
        calls (SubmitHandler_ServeHTTP lib now proof st d)
          = open_error err @ [WriteHeader StatusBadRequest,
                              Write ''Canary must have a deadline in the future''])
     \<and> (version_ok lib c \<and> deadline_ok now c \<and> \<not> increasing_ok st c \<longrightarrow>
        calls (SubmitHandler_ServeHTTP lib now proof st d)
          = open_error err @ [WriteHeader StatusBadRequest,
                              Write ''New canary deadline must be after previous deadline''])
     \<and> (version_ok lib c \<and> deadline_ok now c \<and> increasing_ok st c \<and>
        \<not> linkage_ok lib proof st c \<longrightarrow>
        calls (SubmitHandler_ServeHTTP lib now proof st d)
          = open_error err @ [WriteHeader StatusBadRequest,
                              Write ''Canary must reference preceeding canary hash''])
     \<and> map snd (checks_in_order lib now proof st c) =
         [''Unsupported canary version'', ''Canary must have a deadline in the future'',
          ''New canary deadline must be after previous deadline'',
          ''Canary must reference preceeding canary hash'']
     \<and> distinct (map (\<lambda>(ok, reason). SendRequestError reason)
                   (checks_in_order lib now proof st c))"
proof (intro conjI allI impI)
  fix reason
  assume "first_failing (checks_in_order lib now proof st c) = Some reason"
  then show "SubmitHandler_ServeHTTP lib now proof st d =
          \<lparr>calls = open_error err @ [WriteHeader StatusBadRequest, Write reason],
           panicked = False, state = st, disk = d\<rparr>"
    by (auto simp: checks_in_order_def Submit_opened [OF assms] SendRequestError_def
        split: if_splits)
next
  assume none: "first_failing (checks_in_order lib now proof st c) = None"
  then show ok: "passes lib now proof st c"
    by (simp add: first_failing_None)
  fix reason
  show "calls (SubmitHandler_ServeHTTP lib now proof st d)
          \<noteq> open_error err @ [WriteHeader StatusBadRequest, Write reason]"
    using ok
    by (auto simp: Submit_opened [OF assms] passes_def split: prod.splits option.splits)
next
  assume "\<not> version_ok lib c"
  then show "calls (SubmitHandler_ServeHTTP lib now proof st d)
          = open_error err @ [WriteHeader StatusBadRequest, Write ''Unsupported canary version'']"
    by (simp add: Submit_opened [OF assms] SendRequestError_def)
next
  assume "version_ok lib c \<and> \<not> deadline_ok now c"
  then show "calls (SubmitHandler_ServeHTTP lib now proof st d)
          = open_error err @ [WriteHeader StatusBadRequest,
                              Write ''Canary must have a deadline in the future'']"
    by (simp add: Submit_opened [OF assms] SendRequestError_def)
next
  assume "version_ok lib c \<and> deadline_ok now c \<and> \<not> increasing_ok st c"
  then show "calls (SubmitHandler_ServeHTTP lib now proof st d)
          = open_error err @ [WriteHeader StatusBadRequest,
                              Write ''New canary deadline must be after previous deadline'']"
    by (simp add: Submit_opened [OF assms] SendRequestError_def)
next
  assume "version_ok lib c \<and> deadline_ok now c \<and> increasing_ok st c \<and>
        \<not> linkage_ok lib proof st c"
  then show "calls (SubmitHandler_ServeHTTP lib now proof st d)
          = open_error err @ [WriteHeader StatusBadRequest,
                              Write ''Canary must reference preceeding canary hash'']"
    by (simp add: Submit_opened [OF assms] SendRequestError_def)
next
  show "map snd (checks_in_order lib now proof st c) =
         [''Unsupported canary version'', ''Canary must have a deadline in the future'',
          ''New canary deadline must be after previous deadline'',
          ''Canary must reference preceeding canary hash'']"
    by (simp add: checks_in_order_def)
next
  show "distinct (map (\<lambda>(ok, reason). SendRequestError reason)
                   (checks_in_order lib now proof st c))"
    by (simp add: checks_in_order_def SendRequestError_def)
qed

theorem C7_first_failing_check_wins_witness:
  "OpenProof example_lib (canaryKey example_tip1) ''v0''
     = (Some \<lparr>Version = ''v0'', Deadline = 0, Previous = []\<rparr>, None) \<and>
   checks_in_order example_lib 5 ''v0'' example_tip1 \<lparr>Version = ''v0'', Deadline = 0, Previous = []\<rparr>
     = [(False, ''Unsupported canary version''),
        (False, ''Canary must have a deadline in the future''),
        (False, ''New canary deadline must be after previous deadline''),
        (False, ''Canary must reference preceeding canary hash'')] \<and>
   first_failing (checks_in_order example_lib 5 ''v0'' example_tip1
                    \<lparr>Version = ''v0'', Deadline = 0, Previous = []\<rparr>)
     = Some ''Unsupported canary version'' \<and>
   SubmitHandler_ServeHTTP example_lib 5 ''v0'' example_tip1 7 =
     \<lparr>calls = [WriteHeader StatusBadRequest, Write ''Unsupported canary version''],
      panicked = False, state = example_tip1, disk = 7\<rparr> \<and>
   OpenProof example_lib (canaryKey example_tip1) ''doc3''
     = (Some \<lparr>Version = ''v1'', Deadline = 60, Previous = ''#doc1''\<rparr>, None) \<and>
   checks_in_order example_lib 5 ''doc3'' example_tip1
       \<lparr>Version = ''v1'', Deadline = 60, Previous = ''#doc1''\<rparr>
     = [(True, ''Unsupported canary version''),
        (True, ''Canary must have a deadline in the future''),
        (True, ''New canary deadline must be after previous deadline''),
        (False, ''Canary must reference preceeding canary hash'')] \<and>
   SubmitHandler_ServeHTTP example_lib 5 ''doc3'' example_tip1 7 =
     \<lparr>calls = [WriteHeader StatusBadRequest,
               Write ''Canary must reference preceeding canary hash''],
      panicked = False, state = example_tip1, disk = 7\<rparr>"
proof -
  let ?c = "\<lparr>Version = ''v0'', Deadline = 0, Previous = []\<rparr> :: string Canary"
  let ?c3 = "\<lparr>Version = ''v1'', Deadline = 60, Previous = ''#doc1''\<rparr> :: string Canary"
  have opened: "OpenProof example_lib (canaryKey example_tip1) ''v0'' = (Some ?c, None)"
    by (simp add: example_lib_def example_canaries_def)
  have checks: "checks_in_order example_lib 5 ''v0'' example_tip1 ?c
     = [(False, ''Unsupported canary version''),
        (False, ''Canary must have a deadline in the future''),
        (False, ''New canary deadline must be after previous deadline''),
        (False, ''Canary must reference preceeding canary hash'')]"
    by (simp add: checks_in_order_def version_ok_def deadline_ok_def increasing_ok_def
        linkage_ok_def After_def example_lib_def example_tip1_def example_empty_def)
  then have first: "first_failing (checks_in_order example_lib 5 ''v0'' example_tip1 ?c)
     = Some ''Unsupported canary version''"
    by simp
  from C7_first_failing_check_wins [OF opened, of 5 7] first
  have "SubmitHandler_ServeHTTP example_lib 5 ''v0'' example_tip1 7 =
     \<lparr>calls = open_error None @ [WriteHeader StatusBadRequest, Write ''Unsupported canary version''],
      panicked = False, state = example_tip1, disk = 7\<rparr>"
    by blast
  then have a: "SubmitHandler_ServeHTTP example_lib 5 ''v0'' example_tip1 7 =
     \<lparr>calls = [WriteHeader StatusBadRequest, Write ''Unsupported canary version''],
      panicked = False, state = example_tip1, disk = 7\<rparr>"
    by (simp add: open_error_def)
  have opened3: "OpenProof example_lib (canaryKey example_tip1) ''doc3'' = (Some ?c3, None)"
    by (simp add: example_lib_def example_canaries_def)
  have checks3: "checks_in_order example_lib 5 ''doc3'' example_tip1 ?c3
     = [(True, ''Unsupported canary version''),
        (True, ''Canary must have a deadline in the future''),
        (True, ''New canary deadline must be after previous deadline''),
        (False, ''Canary must reference preceeding canary hash'')]"
    by (simp add: checks_in_order_def version_ok_def deadline_ok_def increasing_ok_def
        linkage_ok_def After_def example_lib_def example_tip1_def example_empty_def)
  then have first3: "first_failing (checks_in_order example_lib 5 ''doc3'' example_tip1 ?c3)
     = Some ''Canary must reference preceeding canary hash''"
    by simp
  from C7_first_failing_check_wins [OF opened3, of 5 7] first3
  have "SubmitHandler_ServeHTTP example_lib 5 ''doc3'' example_tip1 7 =
     \<lparr>calls = open_error None @ [WriteHeader StatusBadRequest,
                                  Write ''Canary must reference preceeding canary hash''],
      panicked = False, state = example_tip1, disk = 7\<rparr>"
    by blast
  then have b: "SubmitHandler_ServeHTTP example_lib 5 ''doc3'' example_tip1 7 =
     \<lparr>calls = [WriteHeader StatusBadRequest,
               Write ''Canary must reference preceeding canary hash''],
      panicked = False, state = example_tip1, disk = 7\<rparr>"
    by (simp add: open_error_def)
  from opened checks first a opened3 checks3 b show ?thesis
    by simp
qed

subsection \<open>The nil canary\<close>

text \<open>
  C10: the handler panics exactly when \<^verbatim>\<open>OpenProof\<close> returned a nil canary. When
  \<^verbatim>\<open>OpenProof\<close> fails with a nil canary, the error has been written to the response
  (status 400 and the error text) and, there being no \<^verbatim>\<open>return\<close>, the version check
  dereferences the nil pointer; state and file system are untouched. With a non-nil
  canary no dereference fails: the only other pointer read, \<^verbatim>\<open>latestCanary\<close>, is
  guarded by its nil test.
\<close>

theorem C10_panic_iff_nil_canary:
  "panicked (SubmitHandler_ServeHTTP lib now proof st d)
     = (fst (OpenProof lib (canaryKey st) proof) = None)
   \<and> (\<forall>e. OpenProof lib (canaryKey st) proof = (None, Some e) \<longrightarrow>
        SubmitHandler_ServeHTTP lib now proof st d =
          \<lparr>calls = [WriteHeader StatusBadRequest, Write e], panicked = True,
           state = st, disk = d\<rparr>)"
proof (intro conjI allI impI)
  show "panicked (SubmitHandler_ServeHTTP lib now proof st d)
     = (fst (OpenProof lib (canaryKey st) proof) = None)"
  proof (cases "OpenProof lib (canaryKey st) proof")
    case (Pair canary err)
    then show ?thesis
      by (cases canary) (simp_all add: Submit_nil Submit_opened split: prod.splits option.splits)
  qed
next
  fix e
  assume "OpenProof lib (canaryKey st) proof = (None, Some e)"
  then show "SubmitHandler_ServeHTTP lib now proof st d =
          \<lparr>calls = [WriteHeader StatusBadRequest, Write e], panicked = True,
           state = st, disk = d\<rparr>"
    by (simp add: Submit_nil open_error_def SendRequestError_def)
qed

theorem C10_panic_iff_nil_canary_witness:
  "OpenProof example_lib (canaryKey example_empty) ''junk'' = (None, Some ''no valid signature'') \<and>
   SubmitHandler_ServeHTTP example_lib 1 ''junk'' example_empty 5 =
     \<lparr>calls = [WriteHeader StatusBadRequest, Write ''no valid signature''], panicked = True,
      state = example_empty, disk = 5\<rparr> \<and>
   fst (OpenProof example_lib (canaryKey example_empty) ''doc1'') \<noteq> None \<and>
   \<not> panicked (SubmitHandler_ServeHTTP example_lib 1 ''doc1'' example_empty 5)"
proof -
  have junk: "OpenProof example_lib (canaryKey example_empty) ''junk''
                = (None, Some ''no valid signature'')"
    by (simp add: example_lib_def example_canaries_def)
  have doc: "fst (OpenProof example_lib (canaryKey example_empty) ''doc1'') \<noteq> None"
    by (simp add: example_lib_def example_canaries_def)
  from C10_panic_iff_nil_canary [of example_lib 1 "''junk''" example_empty 5] junk
  have a: "SubmitHandler_ServeHTTP example_lib 1 ''junk'' example_empty 5 =
     \<lparr>calls = [WriteHeader StatusBadRequest, Write ''no valid signature''], panicked = True,
      state = example_empty, disk = 5\<rparr>"
    by blast
  from C10_panic_iff_nil_canary [of example_lib 1 "''doc1''" example_empty 5] doc
  have b: "\<not> panicked (SubmitHandler_ServeHTTP example_lib 1 ''doc1'' example_empty 5)"
    by blast
  from junk a doc b show ?thesis
    by simp
qed

subsection \<open>Deadlines only grow\<close>

lemma step_tip_deadline:
  assumes "latestCanary st = Some l"
  shows "\<exists>l'. latestCanary (state (SubmitHandler_ServeHTTP lib now proof st d)) = Some l' \<and>
              Deadline l \<le> Deadline l'"
proof (cases rule: Submit_cases [of lib now "proof" st d])
  case unchanged
  with assms show ?thesis by simp
next
  case (added c err d')
  from added(2) assms have "Deadline l < Deadline c"
    by (simp add: passes_def increasing_ok_def After_def)
  with added(5) show ?thesis by simp
qed

lemma step_added_deadline:
  assumes "added (SubmitHandler_ServeHTTP lib now proof st d)"
  shows "\<exists>c. latestCanary (state (SubmitHandler_ServeHTTP lib now proof st d)) = Some c \<and>
             (\<forall>l. latestCanary st = Some l \<longrightarrow> Deadline l < Deadline c)"
proof (cases rule: Submit_cases [of lib now "proof" st d])
  case unchanged
  with assms show ?thesis by simp
next
  case (added c err d')
  have "latestCanary (state (SubmitHandler_ServeHTTP lib now proof st d)) = Some c"
    by (simp add: added(5))
  moreover have "Deadline l < Deadline c" if "latestCanary st = Some l" for l
    using added(2) that by (simp add: passes_def increasing_ok_def After_def)
  ultimately show ?thesis by blast
qed

lemma accepted_deadlines_above_tip:
  "latestCanary st = Some l \<Longrightarrow> x \<in> set (accepted_deadlines lib rs st d) \<Longrightarrow> Deadline l < x"
proof (induction rs arbitrary: st d l)
  case Nil
  then show ?case by simp
next
  case (Cons r rs)
  obtain now p where r: "r = (now, p)" by (cases r)
  let ?out = "SubmitHandler_ServeHTTP lib now p st d"
  from step_tip_deadline [OF Cons.prems(1), of lib now p d]
  obtain l' where l': "latestCanary (state ?out) = Some l'" "Deadline l \<le> Deadline l'"
    by blast
  have unfold: "accepted_deadlines lib (r # rs) st d =
                  (if added ?out then [Deadline l'] else [])
                  @ accepted_deadlines lib rs (state ?out) (disk ?out)"
    unfolding r accepted_deadlines.simps Let_def l' by simp
  from Cons.prems(2)
  have mem: "x \<in> set ((if added ?out then [Deadline l'] else [])
                        @ accepted_deadlines lib rs (state ?out) (disk ?out))"
    unfolding unfold .
  show ?case
  proof (cases "x \<in> set (accepted_deadlines lib rs (state ?out) (disk ?out))")
    case True
    from Cons.IH [OF l'(1) True] l'(2) show ?thesis by simp
  next
    case False
    with mem have head: "added ?out" and x: "x = Deadline l'"
      by (auto split: if_splits)
    from step_added_deadline [OF head]
    obtain c where "latestCanary (state ?out) = Some c"
      and "\<forall>l. latestCanary st = Some l \<longrightarrow> Deadline l < Deadline c"
      by blast
    with l'(1) Cons.prems(1) x show ?thesis by simp
  qed
qed

lemma accepted_deadlines_increasing:
  "sorted_wrt (<) (accepted_deadlines lib rs st d)"
proof (induction rs arbitrary: st d)
  case Nil
  show ?case by simp
next
  case (Cons r rs)
  obtain now p where r: "r = (now, p)" by (cases r)
  let ?out = "SubmitHandler_ServeHTTP lib now p st d"
  show ?case
  proof (cases "added ?out")
    case False
    with Cons.IH show ?thesis by (simp add: r Let_def)
  next
    case True
    from step_added_deadline [OF True]
    obtain c where c: "latestCanary (state ?out) = Some c" by blast
    have "\<forall>x \<in> set (accepted_deadlines lib rs (state ?out) (disk ?out)). Deadline c < x"
      using accepted_deadlines_above_tip [OF c, of _ lib rs "disk ?out"] by blast
    with True c Cons.IH show ?thesis by (simp add: r Let_def)
  qed
qed

lemma serve_tip_deadline:
  "latestCanary st = Some l \<Longrightarrow>
   \<exists>l'. latestCanary (fst (serve lib rs st d)) = Some l' \<and> Deadline l \<le> Deadline l'"
proof (induction rs arbitrary: st d l)
  case Nil
  then show ?case by simp
next
  case (Cons r rs)
  obtain now p where r: "r = (now, p)" by (cases r)
  let ?out = "SubmitHandler_ServeHTTP lib now p st d"
  from step_tip_deadline [OF Cons.prems, of lib now p d]
  obtain l1 where l1: "latestCanary (state ?out) = Some l1" "Deadline l \<le> Deadline l1"
    by blast
  from Cons.IH [OF l1(1), of "disk ?out"]
  obtain l' where "latestCanary (fst (serve lib rs (state ?out) (disk ?out))) = Some l'"
    "Deadline l1 \<le> Deadline l'"
    by blast
  with l1(2) show ?case by (auto simp: r Let_def)
qed

text \<open>
  C6: with a non-nil \<^verbatim>\<open>latestCanary\<close>, a candidate whose deadline is equal to or
  earlier than the tip's deadline is never added and the state is unchanged. The
  checks report in their order, so the response depends on the two earlier ones: a
  wrong version is answered ``Unsupported canary version'', a right version with
  \<open>now\<close> after the deadline is answered ``Canary must have a deadline in the
  future'', and only a candidate that passes both is answered 400 with the text ``New
  canary deadline must be after previous deadline''. As a consequence, in every run
  of the server the deadlines of the canaries that are added are strictly increasing
  in the order of their addition, all of them are later than the deadline of the tip
  the run started from, and the tip at the end of a run never has an earlier deadline
  than the tip at its start.
\<close>

theorem C6_deadlines_strictly_increase:
  "(\<forall>l c err. latestCanary st = Some l \<and>
        OpenProof lib (canaryKey st) proof = (Some c, err) \<and>
        Deadline c \<le> Deadline l \<longrightarrow>
        \<not> added (SubmitHandler_ServeHTTP lib now proof st d) \<and>
        state (SubmitHandler_ServeHTTP lib now proof st d) = st \<and>
        (version_ok lib c \<and> deadline_ok now c \<longrightarrow>
           SubmitHandler_ServeHTTP lib now proof st d =
             \<lparr>calls = open_error err @
                 [WriteHeader StatusBadRequest,
                  Write ''New canary deadline must be after previous deadline''],
              panicked = False, state = st, disk = d\<rparr>) \<and>
        (version_ok lib c \<and> \<not> deadline_ok now c \<longrightarrow>
           SubmitHandler_ServeHTTP lib now proof st d =
             \<lparr>calls = open_error err @
                 [WriteHeader StatusBadRequest,
                  Write ''Canary must have a deadline in the future''],
              panicked = False, state = st, disk = d\<rparr>) \<and>
        (\<not> version_ok lib c \<longrightarrow>
           SubmitHandler_ServeHTTP lib now proof st d =
             \<lparr>calls = open_error err @
                 [WriteHeader StatusBadRequest, Write ''Unsupported canary version''],
              panicked = False, state = st, disk = d\<rparr>))
   \<and> sorted_wrt (<) (accepted_deadlines lib rs st d)
   \<and> (\<forall>l. latestCanary st = Some l \<longrightarrow>
        (\<forall>x \<in> set (accepted_deadlines lib rs st d). Deadline l < x) \<and>
        (\<exists>l'. latestCanary (fst (serve lib rs st d)) = Some l' \<and> Deadline l \<le> Deadline l'))"
proof (intro conjI allI impI ballI)
  fix l c err
  assume h: "latestCanary st = Some l \<and>
        OpenProof lib (canaryKey st) proof = (Some c, err) \<and>
        Deadline c \<le> Deadline l"
  then have opened: "OpenProof lib (canaryKey st) proof = (Some c, err)"
    and stale: "\<not> increasing_ok st c"
    by (simp_all add: increasing_ok_def After_def)
  from stale show "\<not> added (SubmitHandler_ServeHTTP lib now proof st d)"
    by (simp add: added_iff [OF opened] passes_def)
  from stale show "state (SubmitHandler_ServeHTTP lib now proof st d) = st"
    by (simp add: Submit_opened [OF opened])
  {
    assume "version_ok lib c \<and> deadline_ok now c"
    with stale show "SubmitHandler_ServeHTTP lib now proof st d =
             \<lparr>calls = open_error err @
                 [WriteHeader StatusBadRequest,
                  Write ''New canary deadline must be after previous deadline''],
              panicked = False, state = st, disk = d\<rparr>"
      by (simp add: Submit_opened [OF opened] SendRequestError_def)
  }
  {
    assume "version_ok lib c \<and> \<not> deadline_ok now c"
    then show "SubmitHandler_ServeHTTP lib now proof st d =
             \<lparr>calls = open_error err @
                 [WriteHeader StatusBadRequest,
                  Write ''Canary must have a deadline in the future''],
              panicked = False, state = st, disk = d\<rparr>"
      by (simp add: Submit_opened [OF opened] SendRequestError_def)
  }
  {
    assume "\<not> version_ok lib c"
    then show "SubmitHandler_ServeHTTP lib now proof st d =
             \<lparr>calls = open_error err @
                 [WriteHeader StatusBadRequest, Write ''Unsupported canary version''],
              panicked = False, state = st, disk = d\<rparr>"
      by (simp add: Submit_opened [OF opened] SendRequestError_def)
  }
next
  show "sorted_wrt (<) (accepted_deadlines lib rs st d)"
    by (rule accepted_deadlines_increasing)
next
  fix l x
  assume "latestCanary st = Some l" and "x \<in> set (accepted_deadlines lib rs st d)"
  then show "Deadline l < x"
    by (rule accepted_deadlines_above_tip)
next
  fix l
  assume "latestCanary st = Some l"
  then show "\<exists>l'. latestCanary (fst (serve lib rs st d)) = Some l' \<and> Deadline l \<le> Deadline l'"
    by (rule serve_tip_deadline)
qed

theorem C6_deadlines_strictly_increase_witness:
  "latestCanary example_tip1 = Some \<lparr>Version = ''v1'', Deadline = 30, Previous = []\<rparr> \<and>
   OpenProof example_lib (canaryKey example_tip1) ''same''
     = (Some \<lparr>Version = ''v1'', Deadline = 30, Previous = ''#same''\<rparr>, None) \<and>
   (30 :: int) \<le> 30 \<and>
   version_ok example_lib \<lparr>Version = ''v1'', Deadline = 30, Previous = ''#same''\<rparr> \<and>
   deadline_ok 1 \<lparr>Version = ''v1'', Deadline = 30, Previous = ''#same''\<rparr> \<and>
   SubmitHandler_ServeHTTP example_lib 1 ''same'' example_tip1 5 =
     \<lparr>calls = [WriteHeader StatusBadRequest,
               Write ''New canary deadline must be after previous deadline''],
      panicked = False, state = example_tip1, disk = 5\<rparr> \<and>
   \<not> deadline_ok 31 \<lparr>Version = ''v1'', Deadline = 30, Previous = ''#same''\<rparr> \<and>
   SubmitHandler_ServeHTTP example_lib 31 ''same'' example_tip1 5 =
     \<lparr>calls = [WriteHeader StatusBadRequest,
               Write ''Canary must have a deadline in the future''],
      panicked = False, state = example_tip1, disk = 5\<rparr> \<and>
   accepted_deadlines example_lib [(1, ''doc1''), (2, ''same''), (3, ''doc2''), (4, ''doc3'')]
     example_empty 5 = [30, 60] \<and>
   sorted_wrt (<) (accepted_deadlines example_lib
     [(1, ''doc1''), (2, ''same''), (3, ''doc2''), (4, ''doc3'')] example_empty 5)"
proof -
  let ?l = "\<lparr>Version = ''v1'', Deadline = 30, Previous = []\<rparr> :: string Canary"
  let ?c = "\<lparr>Version = ''v1'', Deadline = 30, Previous = ''#same''\<rparr> :: string Canary"
  let ?rs = "[(1, ''doc1''), (2, ''same''), (3, ''doc2''), (4, ''doc3'')] :: request list"
  have tip: "latestCanary example_tip1 = Some ?l"
    by (simp add: example_tip1_def)
  have opened: "OpenProof example_lib (canaryKey example_tip1) ''same'' = (Some ?c, None)"
    by (simp add: example_lib_def example_canaries_def)
  have stale: "Deadline ?c \<le> Deadline ?l"
    by simp
  have early: "version_ok example_lib ?c \<and> deadline_ok 1 ?c"
    by (simp add: version_ok_def deadline_ok_def After_def example_lib_def)
  have late: "version_ok example_lib ?c \<and> \<not> deadline_ok 31 ?c"
    by (simp add: version_ok_def deadline_ok_def After_def example_lib_def)
  from C6_deadlines_strictly_increase [of example_tip1 example_lib "''same''" 1 5 "[]"]
    tip opened stale early
  have "SubmitHandler_ServeHTTP example_lib 1 ''same'' example_tip1 5 =
     \<lparr>calls = open_error None @
         [WriteHeader StatusBadRequest,
          Write ''New canary deadline must be after previous deadline''],
      panicked = False, state = example_tip1, disk = 5\<rparr>"
    by blast
  then have a: "SubmitHandler_ServeHTTP example_lib 1 ''same'' example_tip1 5 =
     \<lparr>calls = [WriteHeader StatusBadRequest,
               Write ''New canary deadline must be after previous deadline''],
      panicked = False, state = example_tip1, disk = 5\<rparr>"
    by (simp add: open_error_def)
  from C6_deadlines_strictly_increase [of example_tip1 example_lib "''same''" 31 5 "[]"]
    tip opened stale late
  have "SubmitHandler_ServeHTTP example_lib 31 ''same'' example_tip1 5 =
     \<lparr>calls = open_error None @
         [WriteHeader StatusBadRequest, Write ''Canary must have a deadline in the future''],
      panicked = False, state = example_tip1, disk = 5\<rparr>"
    by blast
  then have a': "SubmitHandler_ServeHTTP example_lib 31 ''same'' example_tip1 5 =
     \<lparr>calls = [WriteHeader StatusBadRequest,
               Write ''Canary must have a deadline in the future''],
      panicked = False, state = example_tip1, disk = 5\<rparr>"
    by (simp add: open_error_def)
  have run: "accepted_deadlines example_lib ?rs example_empty 5 = [30, 60]"
    by (simp add: SubmitHandler_ServeHTTP_def Let_def added_def open_error_def After_def
        SendRequestError_def StatusNoContent_def StatusBadRequest_def
        example_lib_def example_canaries_def example_empty_def)
  from C6_deadlines_strictly_increase [of example_empty example_lib "[]" 0 5 ?rs]
  have b: "sorted_wrt (<) (accepted_deadlines example_lib ?rs example_empty 5)"
    by blast
  from tip opened early late a a' run b show ?thesis
    by simp
qed

text \<open>
  The reason need not be the one of the previous-deadline check: on the tip with
  deadline 30, the candidate \<open>same\<close> with deadline 30 served at instant 31 is answered
  ``Canary must have a deadline in the future'', the reason of the earlier check.
\<close>

theorem C6_reason_of_earlier_check_counterexample:
  "latestCanary example_tip1 = Some \<lparr>Version = ''v1'', Deadline = 30, Previous = []\<rparr> \<and>
   OpenProof example_lib (canaryKey example_tip1) ''same''
     = (Some \<lparr>Version = ''v1'', Deadline = 30, Previous = ''#same''\<rparr>, None) \<and>
   \<not> After 30 30 \<and>
   calls (SubmitHandler_ServeHTTP example_lib 31 ''same'' example_tip1 5)
     = [WriteHeader StatusBadRequest, Write ''Canary must have a deadline in the future''] \<and>
   calls (SubmitHandler_ServeHTTP example_lib 31 ''same'' example_tip1 5)
     \<noteq> [WriteHeader StatusBadRequest,
         Write ''New canary deadline must be after previous deadline'']"
  by (simp add: SubmitHandler_ServeHTTP_def Let_def open_error_def After_def
      SendRequestError_def example_lib_def example_canaries_def example_tip1_def
      example_empty_def)

subsection \<open>The two tests for an empty chain\<close>








subsection \<open>Where the handler departs from its own messages\<close>

text \<open>
  C1: what the handler does on a chain whose tip is the document \<open>doc1\<close>. The hash
  check (lines 128 to 133) hashes the posted proof itself, not the stored
  \<^verbatim>\<open>latestProof\<close>. A candidate \<open>doc2\<close> whose \<^verbatim>\<open>Previous\<close> field is the hash of
  \<open>doc2\<close>, which is not the hash of the tip, is added and becomes the tip. A candidate
  \<open>doc3\<close> whose \<^verbatim>\<open>Previous\<close> field is the hash of the tip \<open>doc1\<close> is refused with
  ``Canary must reference preceeding canary hash''.
\<close>

theorem C1_hash_check_reads_posted_proof:
  "latestProof example_tip1 = ''doc1'' \<and>
   HashString example_lib (latestProof example_tip1) = ''#doc1'' \<and>
   OpenProof example_lib (canaryKey example_tip1) ''doc2''
     = (Some \<lparr>Version = ''v1'', Deadline = 60, Previous = ''#doc2''\<rparr>, None) \<and>
   SubmitHandler_ServeHTTP example_lib 1 ''doc2'' example_tip1 5 =
     \<lparr>calls = [WriteHeader StatusNoContent], panicked = False,
      state = example_tip1\<lparr>latestProof := ''doc2'',
                latestCanary := Some \<lparr>Version = ''v1'', Deadline = 60, Previous = ''#doc2''\<rparr>\<rparr>,
      disk = 4\<rparr> \<and>
   OpenProof example_lib (canaryKey example_tip1) ''doc3''
     = (Some \<lparr>Version = ''v1'', Deadline = 60, Previous = ''#doc1''\<rparr>, None) \<and>
   SubmitHandler_ServeHTTP example_lib 1 ''doc3'' example_tip1 5 =
     \<lparr>calls = [WriteHeader StatusBadRequest,
               Write ''Canary must reference preceeding canary hash''],
      panicked = False, state = example_tip1, disk = 5\<rparr>"
  by (simp add: SubmitHandler_ServeHTTP_def Let_def open_error_def After_def
      SendRequestError_def example_lib_def example_canaries_def example_tip1_def
      example_empty_def)

text \<open>
  C2: what the handler does when the deadline of the candidate is the very instant
  \<open>now\<close>. The test of line 110 is \<^verbatim>\<open>time.Now().After(deadline)\<close>, which is false for
  equal instants, so on an empty chain the candidate \<open>doc1\<close> with deadline 30,
  served at instant 30, is added and becomes the tip.
\<close>

theorem C2_deadline_equal_to_now_is_added:
  "OpenProof example_lib (canaryKey example_empty) ''doc1''
     = (Some \<lparr>Version = ''v1'', Deadline = 30, Previous = []\<rparr>, None) \<and>
   \<not> After 30 30 \<and>
   SubmitHandler_ServeHTTP example_lib 30 ''doc1'' example_empty 5 =
     \<lparr>calls = [WriteHeader StatusNoContent], panicked = False,
      state = example_empty\<lparr>latestProof := ''doc1'',
                latestCanary := Some \<lparr>Version = ''v1'', Deadline = 30, Previous = []\<rparr>\<rparr>,
      disk = 4\<rparr>"
  by (simp add: SubmitHandler_ServeHTTP_def Let_def open_error_def After_def
      example_lib_def example_canaries_def example_empty_def)

end
